theory Spec2Isabelle
  imports Main
begin

section \<open>JavaScript string and number primitives used by the inventory code\<close>

text \<open>
  Strings are lists of characters. The model covers ASCII text: \<open>toUpperCase\<close> maps
  \<open>a\<close>..\<open>z\<close> to \<open>A\<close>..\<open>Z\<close> and leaves every other character alone, white space is
  the ASCII white space of \<^verbatim>\<open>String.prototype.trim\<close> and of the regular-expression class
  \<^verbatim>\<open>\s\<close>, and a line terminator is LF or CR. JavaScript numbers are modelled as
  mathematical integers (\<open>int\<close>), which is exact below \<open>2^53\<close>.
\<close>

definition isDigit :: "char \<Rightarrow> bool" where
  "isDigit c = (c \<in> set ''0123456789'')"

definition isAlpha :: "char \<Rightarrow> bool" where
  "isAlpha c = (c \<in> set ''abcdefghijklmnopqrstuvwxyzABCDEFGHIJKLMNOPQRSTUVWXYZ'')"

definition isSpace :: "char \<Rightarrow> bool" where
  "isSpace c = (c \<in> set [CHR '' '', CHR 0x09, CHR 0x0A, CHR 0x0B, CHR 0x0C, CHR 0x0D])"

definition isDot :: "char \<Rightarrow> bool" where
  \<comment> \<open>the regular-expression atom \<^verbatim>\<open>.\<close>: any character but a line terminator\<close>
  "isDot c = (c \<notin> set [CHR 0x0A, CHR 0x0D])"

definition upperChar :: "char \<Rightarrow> char" where
  "upperChar c =
     (case map_of (zip ''abcdefghijklmnopqrstuvwxyz'' ''ABCDEFGHIJKLMNOPQRSTUVWXYZ'') c of
        None \<Rightarrow> c
      | Some u \<Rightarrow> u)"

definition toUpperCase :: "string \<Rightarrow> string" where
  "toUpperCase s = map upperChar s"

definition trim :: "string \<Rightarrow> string" where
  "trim s = rev (dropWhile isSpace (rev (dropWhile isSpace s)))"

definition includes_elem :: "'a list \<Rightarrow> 'a \<Rightarrow> bool" where
  \<comment> \<open>\<^verbatim>\<open>xs.includes(x)\<close>\<close>
  "includes_elem xs x = (x \<in> set xs)"

definition digitVal :: "char \<Rightarrow> nat" where
  "digitVal c = length (takeWhile (\<lambda>d. d \<noteq> c) ''0123456789'')"

definition digitChar :: "nat \<Rightarrow> char" where
  "digitChar n = ''0123456789'' ! n"

text \<open>The value of a string of decimal digits, most significant digit first.\<close>

definition digitsVal :: "string \<Rightarrow> nat" where
  "digitsVal ds = foldl (\<lambda>acc c. 10 * acc + digitVal c) 0 ds"

text \<open>
  \<^verbatim>\<open>parseInt(s, 10)\<close>: leading white space is skipped, an optional sign is read, then
  the longest run of decimal digits; with no digit the result is \<^verbatim>\<open>NaN\<close>, here \<open>None\<close>.
\<close>

definition parseInt :: "string \<Rightarrow> int option" where
  "parseInt s =
     (let t = dropWhile isSpace s;
          neg = (t \<noteq> [] \<and> hd t = CHR ''-'');
          u = (if t \<noteq> [] \<and> (hd t = CHR ''-'' \<or> hd t = CHR ''+'') then tl t else t);
          ds = takeWhile isDigit u
      in if ds = [] then None
         else Some (if neg then - int (digitsVal ds) else int (digitsVal ds)))"

text \<open>\<^verbatim>\<open>Number.prototype.toString()\<close> on an integer.\<close>

fun natToString :: "nat \<Rightarrow> string" where
  "natToString n = (if n < 10 then [digitChar n] else natToString (n div 10) @ [digitChar (n mod 10)])"

declare natToString.simps [simp del]

definition toString :: "int \<Rightarrow> string" where
  "toString i = (if i < 0 then CHR ''-'' # natToString (nat (- i)) else natToString (nat i))"

definition padStart :: "nat \<Rightarrow> char \<Rightarrow> string \<Rightarrow> string" where
  "padStart n c s = replicate (n - length s) c @ s"

section \<open>Data model (types.ts)\<close>

datatype transactionType = Purchase | Release

datatype itemType = Part | Product

text \<open>
  An optional field (\<^verbatim>\<open>serialNumber?: string\<close>) is an \<open>option\<close>: \<open>None\<close> is
  \<^verbatim>\<open>undefined\<close>.
\<close>

record transaction =
  t_id :: string
  t_type :: transactionType
  t_quantity :: int
  t_date :: string
  t_remarks :: string
  t_modelName :: "string option"
  t_serialNumber :: "string option"
  t_customerName :: "string option"
  t_address :: "string option"
  t_phoneNumber :: "string option"
  t_userId :: "string option"

record item =
  i_id :: string
  i_type :: itemType
  i_registrationDate :: string
  i_code :: string
  i_name :: string
  i_spec :: string
  i_modelName :: string
  i_drawingNumber :: string
  i_application :: string
  i_remarks :: string
  transactions :: "transaction list"

section \<open>Ledger calculator\<close>

text \<open>\<^verbatim>\<open>calculateStock\<close> of the main view: a left fold from \<open>0\<close>.\<close>

definition stockStep :: "int \<Rightarrow> transaction \<Rightarrow> int" where
  "stockStep acc t = (if t_type t = Purchase then acc + t_quantity t else acc - t_quantity t)"

definition calculateStock :: "item \<Rightarrow> int" where
  "calculateStock it = foldl stockStep 0 (transactions it)"

text \<open>\<^verbatim>\<open>currentStock\<close> of the detail view: the same reduction, written out again there.\<close>

definition currentStock :: "item \<Rightarrow> int" where
  "currentStock it =
     foldl (\<lambda>acc t. if t_type t = Purchase then acc + t_quantity t else acc - t_quantity t) 0
       (transactions it)"

text \<open>The specification's wording: a purchase counts its quantity, a release its negation.\<close>

definition signedQuantity :: "transaction \<Rightarrow> int" where
  "signedQuantity t = (case t_type t of Purchase \<Rightarrow> t_quantity t | Release \<Rightarrow> - t_quantity t)"

definition signedSum :: "transaction list \<Rightarrow> int" where
  "signedSum ts = sum_list (map signedQuantity ts)"

section \<open>Regular expressions as backtracking searches\<close>

text \<open>
  A quantified character class applied to a string gives the list of its possible splits
  \<open>(consumed, rest)\<close> in the order in which a backtracking matcher tries them: a greedy
  quantifier tries the longest run first, a lazy one the shortest. A sequence of
  sub-patterns is the list comprehension over their splits (depth-first search), and the
  match the engine reports is the first element of the list.
\<close>

definition splitAt :: "string \<Rightarrow> nat \<Rightarrow> string \<times> string" where
  "splitAt s i = (take i s, drop i s)"

definition lazyPlus :: "(char \<Rightarrow> bool) \<Rightarrow> string \<Rightarrow> (string \<times> string) list" where
  \<comment> \<open>\<^verbatim>\<open>X+?\<close>\<close>
  "lazyPlus P s = map (splitAt s) [1..<Suc (length (takeWhile P s))]"

definition greedyPlus :: "(char \<Rightarrow> bool) \<Rightarrow> string \<Rightarrow> (string \<times> string) list" where
  \<comment> \<open>\<^verbatim>\<open>X+\<close>\<close>
  "greedyPlus P s = map (splitAt s) (rev [1..<Suc (length (takeWhile P s))])"

definition greedyStar :: "(char \<Rightarrow> bool) \<Rightarrow> string \<Rightarrow> (string \<times> string) list" where
  \<comment> \<open>\<^verbatim>\<open>X*\<close>\<close>
  "greedyStar P s = map (splitAt s) (rev [0..<Suc (length (takeWhile P s))])"

definition literal :: "char \<Rightarrow> string \<Rightarrow> string list" where
  "literal c s = (case s of [] \<Rightarrow> [] | x # r \<Rightarrow> if x = c then [r] else [])"

definition optionalGroup ::
  "(string \<Rightarrow> (string \<times> string) list) \<Rightarrow> string \<Rightarrow> (string option \<times> string) list" where
  \<comment> \<open>\<^verbatim>\<open>(X)?\<close>: the group is tried before it is skipped\<close>
  "optionalGroup f s = map (\<lambda>(g, r). (Some g, r)) (f s) @ [(None, s)]"

definition firstMatch :: "'a list \<Rightarrow> 'a option" where
  "firstMatch ms = (case ms of [] \<Rightarrow> None | m # _ \<Rightarrow> Some m)"

section \<open>Serial allocator (ItemDetailModal)\<close>

text \<open>\<^verbatim>\<open>/^([a-zA-Z]+)(\d+)$/\<close>, with the two captured groups.\<close>

definition serialMatches :: "string \<Rightarrow> (string \<times> string) list" where
  "serialMatches s =
     [(g1, g2). (g1, r1) \<leftarrow> greedyPlus isAlpha s, (g2, r2) \<leftarrow> greedyPlus isDigit r1, r2 = []]"

definition serialMatch :: "string \<Rightarrow> (string \<times> string) option" where
  "serialMatch s = firstMatch (serialMatches s)"

text \<open>
  The body of the \<^verbatim>\<open>forEach\<close> of \<^verbatim>\<open>suggestNextSerial\<close> on the state
  \<open>(maxNum, currentPrefix)\<close>. A comparison with \<^verbatim>\<open>NaN\<close> is false.
\<close>

definition suggestStep :: "int \<times> string \<Rightarrow> string \<Rightarrow> int \<times> string" where
  "suggestStep st s =
     (case serialMatch (toUpperCase s) of
        None \<Rightarrow> st
      | Some (g1, g2) \<Rightarrow>
          (case parseInt g2 of
             None \<Rightarrow> (fst st, g1)
           | Some num \<Rightarrow> (if num > fst st then num else fst st, g1)))"

definition suggestNextSerial :: "string list \<Rightarrow> string" where
  "suggestNextSerial usedSerials =
     (if length usedSerials = 0 then ''SN00001''
      else
        let st = foldl suggestStep (0, ''SN'') usedSerials;
            maxNum = fst st;
            currentPrefix = snd st;
            nextNum = maxNum + 1;
            padLength = max 5 (length (toString nextNum))
        in currentPrefix @ padStart padLength CHR ''0'' (toString nextNum))"

text \<open>
  \<^verbatim>\<open>/^(.+?)(\d+)\s*~\s*(.+?)?(\d+)$/\<close>, with its four captured groups; the third is
  \<open>None\<close> when the optional group did not take part in the match.
\<close>

definition rangeMatches :: "string \<Rightarrow> (string \<times> string \<times> string option \<times> string) list" where
  "rangeMatches input =
     [(g1, g2, g3, g4).
        (g1, r1) \<leftarrow> lazyPlus isDot input,
        (g2, r2) \<leftarrow> greedyPlus isDigit r1,
        (w1, r3) \<leftarrow> greedyStar isSpace r2,
        r4 \<leftarrow> literal CHR ''~'' r3,
        (w2, r5) \<leftarrow> greedyStar isSpace r4,
        (g3, r6) \<leftarrow> optionalGroup (lazyPlus isDot) r5,
        (g4, r7) \<leftarrow> greedyPlus isDigit r6,
        r7 = []]"

definition rangeMatch :: "string \<Rightarrow> (string \<times> string \<times> string option \<times> string) option" where
  "rangeMatch input = firstMatch (rangeMatches input)"

datatype alert =
    RangeTooLarge
  | DuplicateSerials "string list"
  | CheckQuantity
  | OutOfStock
  | RequiredMissing
  | DuplicateCode

text \<open>The \<^verbatim>\<open>for\<close> loop of \<^verbatim>\<open>parseSerialRange\<close>, pushing onto \<open>results\<close>.\<close>

function rangeLoop :: "string \<Rightarrow> nat \<Rightarrow> int \<Rightarrow> int \<Rightarrow> string list \<Rightarrow> string list" where
  "rangeLoop prefix padLength i endNum results =
     (if i \<le> endNum
      then rangeLoop prefix padLength (i + 1) endNum
             (results @ [prefix @ padStart padLength CHR ''0'' (toString i)])
      else results)"
  by pat_completeness auto

termination
  by (relation "measure (\<lambda>(prefix, padLength, i, endNum, results). nat (endNum + 1 - i))") auto

declare rangeLoop.simps [simp del]

text \<open>
  \<^verbatim>\<open>parseSerialRange\<close>. The thrown \<^verbatim>\<open>Error\<close> is \<open>Inl RangeTooLarge\<close>; a
  \<^verbatim>\<open>NaN\<close> start or end gives the literal, as does a missing match.
\<close>

definition parseSerialRange :: "string \<Rightarrow> alert + string list" where
  "parseSerialRange input =
     (case rangeMatch input of
        None \<Rightarrow> Inr [trim input]
      | Some (prefix, startNumStr, g3, endNumStr) \<Rightarrow>
          (case parseInt startNumStr of
             None \<Rightarrow> Inr [trim input]
           | Some startNum \<Rightarrow>
               (case parseInt endNumStr of
                  None \<Rightarrow> Inr [trim input]
                | Some endNum \<Rightarrow>
                    if startNum > endNum then Inr [trim input]
                    else if endNum - startNum \<ge> 100 then Inl RangeTooLarge
                    else Inr (rangeLoop prefix (length startNumStr) startNum endNum []))))"

section \<open>Item and transaction store (App)\<close>

text \<open>
  The store is the \<^verbatim>\<open>items\<close> state of the application: every handler is a function
  from the previous list of items to the next one. \<^verbatim>\<open>generateId\<close> reads the clock and a
  random number, and \<^verbatim>\<open>new Date().toISOString()\<close> reads the clock; the identifiers and
  dates they return are parameters of the model.
\<close>

text \<open>\<^verbatim>\<open>Omit<Item, 'id' | 'transactions'>\<close>\<close>

record itemData =
  d_type :: itemType
  d_registrationDate :: string
  d_code :: string
  d_name :: string
  d_spec :: string
  d_modelName :: string
  d_drawingNumber :: string
  d_application :: string
  d_remarks :: string

text \<open>
  \<^verbatim>\<open>Partial<Item>\<close> and \<^verbatim>\<open>Partial<Transaction>\<close>: \<open>None\<close> is an absent key, which
  the object spread leaves as it was; \<open>Some v\<close> is a key that replaces the field.
\<close>

record partialItem =
  pi_id :: "string option"
  pi_type :: "itemType option"
  pi_registrationDate :: "string option"
  pi_code :: "string option"
  pi_name :: "string option"
  pi_spec :: "string option"
  pi_modelName :: "string option"
  pi_drawingNumber :: "string option"
  pi_application :: "string option"
  pi_remarks :: "string option"
  pi_transactions :: "transaction list option"

record partialTransaction =
  pt_id :: "string option"
  pt_type :: "transactionType option"
  pt_quantity :: "int option"
  pt_date :: "string option"
  pt_remarks :: "string option"
  pt_modelName :: "string option option"
  pt_serialNumber :: "string option option"
  pt_customerName :: "string option option"
  pt_address :: "string option option"
  pt_phoneNumber :: "string option option"
  pt_userId :: "string option option"

definition spread :: "'a \<Rightarrow> 'a option \<Rightarrow> 'a" where
  "spread old new = (case new of None \<Rightarrow> old | Some v \<Rightarrow> v)"

definition mergeItem :: "item \<Rightarrow> partialItem \<Rightarrow> item" where
  \<comment> \<open>\<^verbatim>\<open>{ ...item, ...updatedData }\<close>\<close>
  "mergeItem it u =
     \<lparr> i_id = spread (i_id it) (pi_id u),
       i_type = spread (i_type it) (pi_type u),
       i_registrationDate = spread (i_registrationDate it) (pi_registrationDate u),
       i_code = spread (i_code it) (pi_code u),
       i_name = spread (i_name it) (pi_name u),
       i_spec = spread (i_spec it) (pi_spec u),
       i_modelName = spread (i_modelName it) (pi_modelName u),
       i_drawingNumber = spread (i_drawingNumber it) (pi_drawingNumber u),
       i_application = spread (i_application it) (pi_application u),
       i_remarks = spread (i_remarks it) (pi_remarks u),
       transactions = spread (transactions it) (pi_transactions u) \<rparr>"

definition mergeTransaction :: "transaction \<Rightarrow> partialTransaction \<Rightarrow> transaction" where
  \<comment> \<open>\<^verbatim>\<open>{ ...t, ...updatedData }\<close>\<close>
  "mergeTransaction t u =
     \<lparr> t_id = spread (t_id t) (pt_id u),
       t_type = spread (t_type t) (pt_type u),
       t_quantity = spread (t_quantity t) (pt_quantity u),
       t_date = spread (t_date t) (pt_date u),
       t_remarks = spread (t_remarks t) (pt_remarks u),
       t_modelName = spread (t_modelName t) (pt_modelName u),
       t_serialNumber = spread (t_serialNumber t) (pt_serialNumber u),
       t_customerName = spread (t_customerName t) (pt_customerName u),
       t_address = spread (t_address t) (pt_address u),
       t_phoneNumber = spread (t_phoneNumber t) (pt_phoneNumber u),
       t_userId = spread (t_userId t) (pt_userId u) \<rparr>"

text \<open>
  \<^verbatim>\<open>allUsedSerials\<close>: the upper-cased serial numbers of all transactions of all items,
  a transaction with no or an empty serial number left out; \<^verbatim>\<open>Array.from(new Set(..))\<close>
  keeps the first occurrence of each.
\<close>

definition uniqueInOrder :: "'a list \<Rightarrow> 'a list" where
  "uniqueInOrder xs = foldl (\<lambda>acc x. if x \<in> set acc then acc else acc @ [x]) [] xs"

definition usedSerialOf :: "transaction \<Rightarrow> string option" where
  "usedSerialOf t =
     (case t_serialNumber t of
        None \<Rightarrow> None
      | Some s \<Rightarrow> if s = [] then None else Some (toUpperCase s))"

definition allUsedSerials :: "item list \<Rightarrow> string list" where
  "allUsedSerials items =
     uniqueInOrder (concat (map (\<lambda>it. List.map_filter usedSerialOf (transactions it)) items))"

definition initialQuantityRemark :: string where
  \<comment> \<open>the source has a Korean literal here, meaning the following\<close>
  "initialQuantityRemark = ''initial quantity registration''"

text \<open>
  \<^verbatim>\<open>handleAddItem\<close>; \<open>newItemId\<close> and \<open>newTransId\<close> are the results of the two calls of
  \<^verbatim>\<open>generateId\<close>, \<open>now\<close> is the date.
\<close>

definition handleAddItem ::
  "string \<Rightarrow> string \<Rightarrow> string \<Rightarrow> itemData \<Rightarrow> int \<Rightarrow> item list \<Rightarrow> item list" where
  "handleAddItem newItemId newTransId now itemData initialQuantity prev =
     (let newItem =
            \<lparr> i_id = newItemId, i_type = d_type itemData,
              i_registrationDate = d_registrationDate itemData, i_code = d_code itemData,
              i_name = d_name itemData, i_spec = d_spec itemData,
              i_modelName = d_modelName itemData, i_drawingNumber = d_drawingNumber itemData,
              i_application = d_application itemData, i_remarks = d_remarks itemData,
              transactions = [] \<rparr>;
          newItem' =
            (if initialQuantity > 0
             then newItem\<lparr>transactions := transactions newItem @
                    [\<lparr> t_id = newTransId, t_type = Purchase, t_quantity = initialQuantity,
                       t_date = now, t_remarks = initialQuantityRemark, t_modelName = None,
                       t_serialNumber = None, t_customerName = None, t_address = None,
                       t_phoneNumber = None, t_userId = None \<rparr>]\<rparr>
             else newItem)
      in newItem' # prev)"

definition handleUpdateItem :: "string \<Rightarrow> partialItem \<Rightarrow> item list \<Rightarrow> item list" where
  "handleUpdateItem itemId updatedData prev =
     map (\<lambda>it. if i_id it = itemId then mergeItem it updatedData else it) prev"

text \<open>
  \<^verbatim>\<open>handleAddTransaction\<close> of the application; the \<open>t_id\<close> of the argument is
  replaced by the generated identifier \<open>newId\<close>.
\<close>

definition handleAddTransaction :: "string \<Rightarrow> string \<Rightarrow> transaction \<Rightarrow> item list \<Rightarrow> item list" where
  "handleAddTransaction newId itemId tr prev =
     (let newTransaction = tr\<lparr>t_id := newId\<rparr>
      in map (\<lambda>it. if i_id it = itemId
                    then it\<lparr>transactions := transactions it @ [newTransaction]\<rparr>
                    else it) prev)"

definition handleUpdateTransaction ::
  "string \<Rightarrow> string \<Rightarrow> partialTransaction \<Rightarrow> item list \<Rightarrow> item list" where
  "handleUpdateTransaction itemId transactionId updatedData prev =
     map (\<lambda>it. if i_id it = itemId
               then it\<lparr>transactions :=
                      map (\<lambda>t. if t_id t = transactionId then mergeTransaction t updatedData else t)
                        (transactions it)\<rparr>
               else it) prev"

definition handleDeleteTransaction :: "string \<Rightarrow> string \<Rightarrow> item list \<Rightarrow> item list" where
  "handleDeleteTransaction itemId transactionId prev =
     map (\<lambda>it. if i_id it = itemId
               then it\<lparr>transactions := filter (\<lambda>t. t_id t \<noteq> transactionId) (transactions it)\<rparr>
               else it) prev"

section \<open>Adding an item (AddItemModal)\<close>

record addItemForm =
  a_registrationDate :: string
  a_code :: string
  a_name :: string
  a_drawingNumber :: string
  a_spec :: string
  a_remarks :: string
  a_initialQuantity :: string

definition isCodeDuplicate :: "string \<Rightarrow> string list \<Rightarrow> bool" where
  "isCodeDuplicate formCode existingCodes =
     (if trim formCode = [] then False
      else list_ex (\<lambda>c. toUpperCase c = toUpperCase (trim formCode)) existingCodes)"

text \<open>
  \<^verbatim>\<open>handleSubmit\<close>: \<open>Inl\<close> is the alert of a rejected submission, after which the
  store is as before; \<open>Inr\<close> is the store after \<^verbatim>\<open>onAddItem\<close>. The application passes
  the codes of its items as \<open>existingCodes\<close>.
\<close>

definition handleSubmit ::
  "string \<Rightarrow> string \<Rightarrow> string \<Rightarrow> addItemForm \<Rightarrow> itemType \<Rightarrow> string list \<Rightarrow> item list
     \<Rightarrow> alert + item list" where
  "handleSubmit newItemId newTransId now formData itemType existingCodes prev =
     (if a_code formData = [] \<or> a_name formData = [] then Inl RequiredMissing
      else if isCodeDuplicate (a_code formData) existingCodes then Inl DuplicateCode
      else
        let quantity = (case parseInt (a_initialQuantity formData) of None \<Rightarrow> 0 | Some q \<Rightarrow> q)
        in Inr (handleAddItem newItemId newTransId now
                 \<lparr> d_type = itemType, d_registrationDate = a_registrationDate formData,
                   d_code = a_code formData, d_name = a_name formData, d_spec = a_spec formData,
                   d_modelName = [], d_drawingNumber = a_drawingNumber formData,
                   d_application = [], d_remarks = a_remarks formData \<rparr>
                 quantity prev))"

section \<open>Adding transactions (ItemDetailModal)\<close>

text \<open>The state of the transaction form.\<close>

record transForm =
  f_transactionType :: transactionType
  f_quantity :: string
  f_transRemarks :: string
  f_transModelName :: string
  f_transUserId :: string
  f_serialNumber :: string
  f_customerName :: string
  f_address :: string
  f_phoneNumber :: string

text \<open>
  The \<open>k\<close>-th identifier returned by \<^verbatim>\<open>generateId('t')\<close> and the \<open>k\<close>-th date read
  during one submission.
\<close>

record env =
  genId :: "nat \<Rightarrow> string"
  isoNow :: "nat \<Rightarrow> string"

text \<open>
  \<open>targetSerials\<close> and \<open>isRange\<close> as the handler computes them; \<open>Inl\<close> when
  \<^verbatim>\<open>parseSerialRange\<close> throws.
\<close>

definition targetSerialsOf :: "item \<Rightarrow> transForm \<Rightarrow> alert + (string list \<times> bool)" where
  "targetSerialsOf it form =
     (if i_type it = Product \<and> includes_elem (f_serialNumber form) CHR ''~''
      then (case parseSerialRange (toUpperCase (f_serialNumber form)) of
              Inl e \<Rightarrow> Inl e
            | Inr ss \<Rightarrow> Inr (ss, True))
      else Inr ([trim (toUpperCase (f_serialNumber form))], False))"

definition countOf :: "transForm \<Rightarrow> string list \<times> bool \<Rightarrow> int" where
  "countOf form target =
     (if snd target then int (length (fst target))
      else (case parseInt (f_quantity form) of None \<Rightarrow> 0 | Some q \<Rightarrow> q))"

definition rangeTransaction :: "env \<Rightarrow> transForm \<Rightarrow> nat \<Rightarrow> string \<Rightarrow> transaction" where
  "rangeTransaction e form k s =
     \<lparr> t_id = [], t_type = f_transactionType form, t_quantity = 1, t_date = isoNow e k,
       t_remarks = f_transRemarks form, t_modelName = Some (f_transModelName form),
       t_serialNumber = Some s, t_customerName = Some (f_customerName form),
       t_address = Some (f_address form), t_phoneNumber = Some (f_phoneNumber form),
       t_userId = Some (f_transUserId form) \<rparr>"

definition singleTransaction :: "env \<Rightarrow> item \<Rightarrow> transForm \<Rightarrow> int \<Rightarrow> transaction" where
  "singleTransaction e it form count =
     \<lparr> t_id = [], t_type = f_transactionType form, t_quantity = count, t_date = isoNow e 0,
       t_remarks = f_transRemarks form, t_modelName = Some (f_transModelName form),
       t_serialNumber = Some (if i_type it = Product then toUpperCase (f_serialNumber form) else []),
       t_customerName = Some (if i_type it = Product then f_customerName form else []),
       t_address = Some (if i_type it = Product then f_address form else []),
       t_phoneNumber = Some (if i_type it = Product then f_phoneNumber form else []),
       t_userId = Some (f_transUserId form) \<rparr>"

text \<open>
  \<^verbatim>\<open>targetSerials.forEach(s => onAddTransaction(item.id, ..))\<close>: the \<open>k\<close>-th call
  updates the store the calls before it have left.
\<close>

primrec addEach :: "env \<Rightarrow> string \<Rightarrow> transForm \<Rightarrow> string list \<Rightarrow> nat \<Rightarrow> item list \<Rightarrow> item list" where
  "addEach e itemId form [] k prev = prev"
| "addEach e itemId form (s # ss) k prev =
     addEach e itemId form ss (Suc k)
       (handleAddTransaction (genId e k) itemId (rangeTransaction e form k s) prev)"

text \<open>
  \<^verbatim>\<open>handleAddTransaction\<close> of the detail view, for the item \<open>it\<close> it shows and the
  \<open>used\<close> serials it was given: \<open>Inl\<close> is the alert after which the handler returns
  with the store untouched, \<open>Inr\<close> the store after the calls of \<^verbatim>\<open>onAddTransaction\<close>.
\<close>

definition handleAddTransaction_modal ::
  "env \<Rightarrow> item \<Rightarrow> string list \<Rightarrow> transForm \<Rightarrow> item list \<Rightarrow> alert + item list" where
  "handleAddTransaction_modal e it used form prev =
     (case targetSerialsOf it form of
        Inl err \<Rightarrow> Inl err
      | Inr target \<Rightarrow>
          let targetSerials = fst target;
              isRange = snd target;
              duplicates = filter (\<lambda>s. s \<noteq> [] \<and> includes_elem used s) targetSerials
          in if length duplicates > 0 then Inl (DuplicateSerials (take 5 duplicates))
             else
               let count = countOf form target
               in if count \<le> 0 then Inl CheckQuantity
                  else if f_transactionType form = Release \<and> count > currentStock it
                    then Inl OutOfStock
                  else if isRange then Inr (addEach e (i_id it) form targetSerials 0 prev)
                  else Inr (handleAddTransaction (genId e 0) (i_id it)
                              (singleTransaction e it form count) prev))"

text \<open>The store after a submission: a rejected one leaves it as it was.\<close>

definition storeAfter :: "item list \<Rightarrow> alert + item list \<Rightarrow> item list" where
  "storeAfter prev r = (case r of Inl a \<Rightarrow> prev | Inr after \<Rightarrow> after)"

section \<open>The forms as the application wires them\<close>

text \<open>
  The detail view is shown for the first item with the selected identifier and is given the
  used serials of the whole store; the add-item view is given the codes of the store's
  items. A rejected submission leaves the store as it was.
\<close>

definition submitTransactionForm :: "env \<Rightarrow> string \<Rightarrow> transForm \<Rightarrow> item list \<Rightarrow> item list" where
  "submitTransactionForm e selectedItemId form prev =
     (case find (\<lambda>i. i_id i = selectedItemId) prev of
        None \<Rightarrow> prev
      | Some it \<Rightarrow> storeAfter prev (handleAddTransaction_modal e it (allUsedSerials prev) form prev))"

definition submitAddItemForm ::
  "string \<Rightarrow> string \<Rightarrow> string \<Rightarrow> addItemForm \<Rightarrow> itemType \<Rightarrow> item list \<Rightarrow> item list" where
  "submitAddItemForm newItemId newTransId now formData itemType prev =
     storeAfter prev (handleSubmit newItemId newTransId now formData itemType (map i_code prev) prev)"

section \<open>The specification's wording of the serial allocator\<close>

text \<open>The text of an optional group: empty when the group took no part in the match.\<close>

definition optText :: "string option \<Rightarrow> string" where
  "optText g = (case g of None \<Rightarrow> [] | Some a \<Rightarrow> a)"

text \<open>
  An input of the form prefix, digits, white space, \<open>~\<close>, white space, an optional
  second prefix, digits: the strings the pattern of \<^verbatim>\<open>parseSerialRange\<close> describes.
\<close>

definition rangeShaped :: "string \<Rightarrow> bool" where
  "rangeShaped input =
     (\<exists>g1 g2 w1 w2 g3 g4.
        input = g1 @ g2 @ w1 @ CHR ''~'' # w2 @ g3 @ g4 \<and>
        g1 \<noteq> [] \<and> list_all isDot g1 \<and> g2 \<noteq> [] \<and> list_all isDigit g2 \<and>
        list_all isSpace w1 \<and> list_all isSpace w2 \<and> list_all isDot g3 \<and>
        g4 \<noteq> [] \<and> list_all isDigit g4)"

text \<open>
  The pattern letters-then-digits of \<^verbatim>\<open>suggestNextSerial\<close>, the matches among the
  (upper-cased) used serials in list order, the prefix of the last of them, the largest
  numeric suffix, and a number padded with zeros to five digits or more.
\<close>

definition lettersDigits :: "string \<Rightarrow> (string \<times> string) option" where
  "lettersDigits s =
     (let p = takeWhile isAlpha s; d = dropWhile isAlpha s
      in if p \<noteq> [] \<and> d \<noteq> [] \<and> list_all isDigit d then Some (p, d) else None)"

definition matchedSerials :: "string list \<Rightarrow> (string \<times> string) list" where
  "matchedSerials used = List.map_filter (\<lambda>s. lettersDigits (toUpperCase s)) used"

definition lastMatchedPrefix :: "string list \<Rightarrow> string" where
  "lastMatchedPrefix used =
     (if matchedSerials used = [] then ''SN'' else fst (last (matchedSerials used)))"

definition maxSuffix :: "string list \<Rightarrow> int" where
  "maxSuffix used = Max (set (0 # map (\<lambda>m. int (digitsVal (snd m))) (matchedSerials used)))"

definition paddedNumber :: "int \<Rightarrow> string" where
  "paddedNumber n = padStart (max 5 (length (toString n))) CHR ''0'' (toString n)"

text \<open>
  The transactions a range submission appends, the \<open>k\<close>-th with the \<open>k\<close>-th generated
  identifier, and the change of stock that \<open>n\<close> pieces of the form's type make.
\<close>

definition rangeTransactions :: "env \<Rightarrow> transForm \<Rightarrow> string list \<Rightarrow> transaction list" where
  "rangeTransactions e form serials =
     map (\<lambda>(k, s). (rangeTransaction e form k s)\<lparr>t_id := genId e k\<rparr>) (enumerate 0 serials)"

definition stockChange :: "transForm \<Rightarrow> nat \<Rightarrow> int" where
  "stockChange form n = (case f_transactionType form of Purchase \<Rightarrow> int n | Release \<Rightarrow> - int n)"

section \<open>Example data\<close>

definition exTrans :: "string \<Rightarrow> transactionType \<Rightarrow> int \<Rightarrow> string option \<Rightarrow> transaction" where
  "exTrans tid ty q sn =
     \<lparr> t_id = tid, t_type = ty, t_quantity = q, t_date = ''2024-01-01T00:00:00.000Z'',
       t_remarks = [], t_modelName = None, t_serialNumber = sn, t_customerName = None,
       t_address = None, t_phoneNumber = None, t_userId = None \<rparr>"

definition exItem :: "string \<Rightarrow> itemType \<Rightarrow> string \<Rightarrow> transaction list \<Rightarrow> item" where
  "exItem iid ty c ts =
     \<lparr> i_id = iid, i_type = ty, i_registrationDate = ''2024-01-01'', i_code = c,
       i_name = ''WIDGET'', i_spec = [], i_modelName = [], i_drawingNumber = [],
       i_application = [], i_remarks = [], transactions = ts \<rparr>"

definition exForm :: "transactionType \<Rightarrow> string \<Rightarrow> string \<Rightarrow> transForm" where
  "exForm ty q sn =
     \<lparr> f_transactionType = ty, f_quantity = q, f_transRemarks = [], f_transModelName = [],
       f_transUserId = [], f_serialNumber = sn, f_customerName = [], f_address = [],
       f_phoneNumber = [] \<rparr>"

definition exEnv :: env where
  "exEnv = \<lparr> genId = (\<lambda>k. ''t-1700000000000-'' @ natToString k),
             isoNow = (\<lambda>k. ''2024-01-02T00:00:00.000Z'') \<rparr>"

definition exAddForm :: "string \<Rightarrow> string \<Rightarrow> string \<Rightarrow> addItemForm" where
  "exAddForm c n q =
     \<lparr> a_registrationDate = ''2024-01-01'', a_code = c, a_name = n, a_drawingNumber = [],
       a_spec = [], a_remarks = [], a_initialQuantity = q \<rparr>"

text \<open>A part with five pieces in stock and a product with two.\<close>

definition exPart :: item where
  "exPart = exItem ''item-1'' Part ''P1'' [exTrans ''t-1700000000000-7'' Purchase 5 None]"

definition exProduct :: item where
  "exProduct = exItem ''item-2'' Product ''CT1''
     [exTrans ''t-1700000000001-1'' Purchase 1 (Some ''SN00001''),
      exTrans ''t-1700000000001-2'' Purchase 1 (Some ''SN00002'')]"

definition exStore :: "item list" where
  "exStore = [exPart, exProduct]"

definition exEnv2 :: env where
  "exEnv2 = \<lparr> genId = (\<lambda>k. ''t-1700000000500-'' @ natToString k),
              isoNow = (\<lambda>k. ''2024-01-03T00:00:00.000Z'') \<rparr>"

text \<open>A range typed in lower case, a serial typed with a blank after it, a product without transactions.\<close>

definition exRangeForm :: transForm where
  "exRangeForm = exForm Purchase [] ''ct0003~0005''"

definition exSpacedForm :: transForm where
  "exSpacedForm = exForm Purchase ''1'' ''SN1 ''"

definition exNewProduct :: item where
  "exNewProduct = exItem ''item-3'' Product ''CT2'' []"

section \<open>Properties of the ledger\<close>

lemma stockStep_signed: "stockStep acc t = acc + signedQuantity t"
  by (cases "t_type t") (simp_all add: stockStep_def signedQuantity_def)

lemma foldl_stockStep: "foldl stockStep acc ts = acc + signedSum ts"
proof (induction ts arbitrary: acc)
  case Nil
  show ?case by (simp add: signedSum_def)
next
  case (Cons t ts)
  have "foldl stockStep acc (t # ts) = foldl stockStep (acc + signedQuantity t) ts"
    by (simp add: stockStep_signed)
  also have "\<dots> = acc + signedQuantity t + signedSum ts"
    by (rule Cons.IH)
  finally show ?case by (simp add: signedSum_def)
qed

lemma currentStock_calculateStock: "currentStock it = calculateStock it"
proof -
  have "(\<lambda>acc t. if t_type t = Purchase then acc + t_quantity t else acc - t_quantity t) = stockStep"
    by (intro ext) (simp add: stockStep_def)
  then show ?thesis by (simp add: currentStock_def calculateStock_def)
qed

lemma calculateStock_signedSum: "calculateStock it = signedSum (transactions it)"
  by (simp add: calculateStock_def foldl_stockStep)

text \<open>
  Claim C1. For every item, the stock computed by the main view and the stock computed by
  the detail view both equal the signed sum of the item's transaction list in insertion
  order: a purchase adds its quantity, a release subtracts it. The item record has no
  stock field; the value is a function of the transaction list alone.
\<close>

theorem C1_stock_is_signed_sum:
  "calculateStock it = signedSum (transactions it) \<and> currentStock it = signedSum (transactions it)"
  by (simp add: currentStock_calculateStock calculateStock_signedSum)

section \<open>Properties of the pattern matchers\<close>

subsection \<open>Splits of quantified character classes\<close>

lemma take_le_takeWhile:
  "i \<le> length (takeWhile P s) \<Longrightarrow> \<forall>c \<in> set (take i s). P c"
proof -
  assume "i \<le> length (takeWhile P s)"
  then have "take i s = take i (takeWhile P s)"
    by (metis takeWhile_dropWhile_id take_append diff_is_0_eq take_0 append_Nil2)
  then show ?thesis
    by (metis in_set_takeD set_takeWhileD)
qed

lemma length_takeWhile_append_ge:
  "\<forall>c \<in> set a. P c \<Longrightarrow> length a \<le> length (takeWhile P (a @ b))"
  by (simp add: takeWhile_append2)

lemma split_in_range_iff:
  "(a, b) \<in> splitAt s ` {i. lo \<le> i \<and> i \<le> length (takeWhile P s)} \<longleftrightarrow>
     s = a @ b \<and> lo \<le> length a \<and> (\<forall>c \<in> set a. P c)"
proof
  assume "(a, b) \<in> splitAt s ` {i. lo \<le> i \<and> i \<le> length (takeWhile P s)}"
  then obtain i where i: "lo \<le> i" "i \<le> length (takeWhile P s)" "a = take i s" "b = drop i s"
    by (auto simp: splitAt_def)
  have "i \<le> length s"
    using i(2) length_takeWhile_le [of P s] by linarith
  with i show "s = a @ b \<and> lo \<le> length a \<and> (\<forall>c \<in> set a. P c)"
    using take_le_takeWhile [of i P s] by simp
next
  assume r: "s = a @ b \<and> lo \<le> length a \<and> (\<forall>c \<in> set a. P c)"
  then have "length a \<le> length (takeWhile P s)"
    using length_takeWhile_append_ge [of a P b] by simp
  moreover have "splitAt s (length a) = (a, b)"
    using r by (simp add: splitAt_def)
  ultimately show "(a, b) \<in> splitAt s ` {i. lo \<le> i \<and> i \<le> length (takeWhile P s)}"
    using r by (metis (mono_tags, lifting) image_eqI mem_Collect_eq)
qed

lemma set_upt_Suc_le: "set (rev [lo..<Suc n]) = {i. lo \<le> i \<and> i \<le> n}" "set [lo..<Suc n] = {i. lo \<le> i \<and> i \<le> n}"
  by (auto simp del: upt_Suc)

lemma set_lazyPlus:
  "(a, b) \<in> set (lazyPlus P s) \<longleftrightarrow> s = a @ b \<and> a \<noteq> [] \<and> (\<forall>c \<in> set a. P c)"
proof -
  have "set (lazyPlus P s) = splitAt s ` {i. 1 \<le> i \<and> i \<le> length (takeWhile P s)}"
    by (simp only: lazyPlus_def set_map set_upt_Suc_le)
  then show ?thesis
    using split_in_range_iff [of a b s 1 P] by (cases a) auto
qed

lemma set_greedyPlus:
  "(a, b) \<in> set (greedyPlus P s) \<longleftrightarrow> s = a @ b \<and> a \<noteq> [] \<and> (\<forall>c \<in> set a. P c)"
proof -
  have "set (greedyPlus P s) = splitAt s ` {i. 1 \<le> i \<and> i \<le> length (takeWhile P s)}"
    by (simp only: greedyPlus_def set_map set_upt_Suc_le)
  then show ?thesis
    using split_in_range_iff [of a b s 1 P] by (cases a) auto
qed

lemma set_greedyStar:
  "(a, b) \<in> set (greedyStar P s) \<longleftrightarrow> s = a @ b \<and> (\<forall>c \<in> set a. P c)"
proof -
  have "set (greedyStar P s) = splitAt s ` {i. 0 \<le> i \<and> i \<le> length (takeWhile P s)}"
    by (simp only: greedyStar_def set_map set_upt_Suc_le)
  then show ?thesis
    using split_in_range_iff [of a b s 0 P] by auto
qed

lemma set_literal: "r \<in> set (literal c s) \<longleftrightarrow> s = c # r"
  by (auto simp: literal_def split: list.splits)

lemma set_optionalGroup:
  "(g, r) \<in> set (optionalGroup f s) \<longleftrightarrow>
     (g = None \<and> r = s) \<or> (\<exists>a. g = Some a \<and> (a, r) \<in> set (f s))"
  by (auto simp: optionalGroup_def)

lemma firstMatch_None: "firstMatch ms = None \<longleftrightarrow> set ms = {}"
  by (cases ms) (simp_all add: firstMatch_def)

lemma firstMatch_Some: "firstMatch ms = Some m \<Longrightarrow> m \<in> set ms"
  by (cases ms) (simp_all add: firstMatch_def)

lemma Bex_pair: "(\<exists>x\<in>A. P x) \<longleftrightarrow> (\<exists>a b. (a, b) \<in> A \<and> P (a, b))"
  by auto

lemma rangeMatches_sound:
  assumes "(g1, g2, g3, g4) \<in> set (rangeMatches input)"
  shows "\<exists>w1 w2. input = g1 @ g2 @ w1 @ CHR ''~'' # w2 @ optText g3 @ g4 \<and>
        g1 \<noteq> [] \<and> (\<forall>c \<in> set g1. isDot c) \<and> g2 \<noteq> [] \<and> (\<forall>c \<in> set g2. isDigit c) \<and>
        (\<forall>c \<in> set w1. isSpace c) \<and> (\<forall>c \<in> set w2. isSpace c) \<and>
        (\<forall>c \<in> set (optText g3). isDot c) \<and> g4 \<noteq> [] \<and> (\<forall>c \<in> set g4. isDigit c)"
proof -
  from assms obtain r1 r2 w1 r3 r4 w2 r5 r6 where
    1: "(g1, r1) \<in> set (lazyPlus isDot input)" and
    2: "(g2, r2) \<in> set (greedyPlus isDigit r1)" and
    3: "(w1, r3) \<in> set (greedyStar isSpace r2)" and
    4: "r4 \<in> set (literal CHR ''~'' r3)" and
    5: "(w2, r5) \<in> set (greedyStar isSpace r4)" and
    6: "(g3, r6) \<in> set (optionalGroup (lazyPlus isDot) r5)" and
    7: "(g4, []) \<in> set (greedyPlus isDigit r6)"
    unfolding rangeMatches_def by (auto split: if_splits)
  from 6 have "r5 = optText g3 @ r6 \<and> (\<forall>c \<in> set (optText g3). isDot c)"
    by (auto simp: set_optionalGroup set_lazyPlus optText_def)
  with 1 2 3 4 5 7 show ?thesis
    by (simp add: set_lazyPlus set_greedyPlus set_greedyStar set_literal) blast
qed

lemma in_concat_map: "x \<in> set xs \<Longrightarrow> y \<in> set (f x) \<Longrightarrow> y \<in> set (concat (map f xs))"
  by auto

lemma rangeMatches_complete:
  assumes "input = g1 @ g2 @ w1 @ CHR ''~'' # w2 @ g3 @ g4"
    and "g1 \<noteq> []" "\<forall>c \<in> set g1. isDot c" "g2 \<noteq> []" "\<forall>c \<in> set g2. isDigit c"
    and "\<forall>c \<in> set w1. isSpace c" "\<forall>c \<in> set w2. isSpace c"
    and "\<forall>c \<in> set g3. isDot c" "g4 \<noteq> []" "\<forall>c \<in> set g4. isDigit c"
  shows "(g1, g2, if g3 = [] then None else Some g3, g4) \<in> set (rangeMatches input)"
proof -
  let ?g = "if g3 = [] then None else Some g3"
  have 1: "(g1, g2 @ w1 @ CHR ''~'' # w2 @ g3 @ g4) \<in> set (lazyPlus isDot input)"
    using assms by (simp add: set_lazyPlus)
  have 2: "(g2, w1 @ CHR ''~'' # w2 @ g3 @ g4) \<in> set (greedyPlus isDigit (g2 @ w1 @ CHR ''~'' # w2 @ g3 @ g4))"
    using assms by (simp add: set_greedyPlus)
  have 3: "(w1, CHR ''~'' # w2 @ g3 @ g4) \<in> set (greedyStar isSpace (w1 @ CHR ''~'' # w2 @ g3 @ g4))"
    using assms by (simp add: set_greedyStar)
  have 4: "w2 @ g3 @ g4 \<in> set (literal CHR ''~'' (CHR ''~'' # w2 @ g3 @ g4))"
    by (simp add: set_literal)
  have 5: "(w2, g3 @ g4) \<in> set (greedyStar isSpace (w2 @ g3 @ g4))"
    using assms by (simp add: set_greedyStar)
  have 6: "(?g, g4) \<in> set (optionalGroup (lazyPlus isDot) (g3 @ g4))"
    using assms by (simp add: set_optionalGroup set_lazyPlus)
  have 7: "(g4, []) \<in> set (greedyPlus isDigit g4)"
    using assms by (simp add: set_greedyPlus)
  show ?thesis
    unfolding rangeMatches_def
    apply (rule in_concat_map [OF 1], simp only: prod.case)
    apply (rule in_concat_map [OF 2], simp only: prod.case)
    apply (rule in_concat_map [OF 3], simp only: prod.case)
    apply (rule in_concat_map [OF 4])
    apply (rule in_concat_map [OF 5], simp only: prod.case)
    apply (rule in_concat_map [OF 6], simp only: prod.case)
    apply (rule in_concat_map [OF 7], simp)
    done
qed

lemma rangeMatch_None_iff:
  "rangeMatch input = None \<longleftrightarrow> rangeMatches input = []"
  by (simp add: rangeMatch_def firstMatch_def split: list.splits)

subsection \<open>Digits and numbers\<close>

lemma digitVal_digitChar: "d < 10 \<Longrightarrow> digitVal (digitChar d) = d"
proof -
  assume "d < 10"
  then have "d \<in> {0, 1, 2, 3, 4, 5, 6, 7, 8, 9}" by auto
  then show ?thesis
    by (auto simp: digitVal_def digitChar_def)
qed

lemma isDigit_digitChar: "d < 10 \<Longrightarrow> isDigit (digitChar d)"
proof -
  assume "d < 10"
  then have "d \<in> {0, 1, 2, 3, 4, 5, 6, 7, 8, 9}" by auto
  then show ?thesis
    by (auto simp: isDigit_def digitChar_def)
qed

lemma digitsVal_snoc: "digitsVal (ds @ [c]) = 10 * digitsVal ds + digitVal c"
  by (simp add: digitsVal_def)

lemma digitsVal_natToString: "digitsVal (natToString n) = n"
proof (induction n rule: natToString.induct)
  case (1 n)
  show ?case
  proof (cases "n < 10")
    case True
    then show ?thesis
      by (simp add: natToString.simps [of n] digitsVal_def digitVal_digitChar)
  next
    case False
    with 1 show ?thesis
      by (simp add: natToString.simps [of n] digitsVal_snoc digitVal_digitChar)
  qed
qed

lemma natToString_digits: "\<forall>c \<in> set (natToString n). isDigit c"
proof (induction n rule: natToString.induct)
  case (1 n)
  show ?case
  proof (cases "n < 10")
    case True
    then show ?thesis
      by (simp add: natToString.simps [of n] isDigit_digitChar)
  next
    case False
    with 1 show ?thesis
      by (simp add: natToString.simps [of n] isDigit_digitChar)
  qed
qed

lemma natToString_nonempty: "natToString n \<noteq> []"
  by (simp add: natToString.simps [of n])

lemma digitVal_zero: "digitVal CHR ''0'' = 0"
  by (simp add: digitVal_def)

lemma digitsVal_zeros: "foldl (\<lambda>acc c. 10 * acc + digitVal c) 0 (replicate k CHR ''0'') = 0"
  by (induction k) (simp_all add: digitVal_zero)

lemma digitsVal_padStart: "digitsVal (padStart w CHR ''0'' ds) = digitsVal ds"
  by (simp add: padStart_def digitsVal_def digitsVal_zeros)

lemma padded_inj:
  "padStart w CHR ''0'' (natToString m) = padStart w CHR ''0'' (natToString n) \<Longrightarrow> m = n"
  by (metis digitsVal_padStart digitsVal_natToString)

lemma length_padStart: "length (padStart w c s) = max w (length s)"
  by (simp add: padStart_def)

lemma isDigit_not_space: "isDigit c \<Longrightarrow> \<not> isSpace c"
  by (auto simp: isDigit_def isSpace_def)

lemma isDigit_not_sign: "isDigit c \<Longrightarrow> c \<noteq> CHR ''-'' \<and> c \<noteq> CHR ''+''"
  by (auto simp: isDigit_def)

lemma isDigit_not_alpha: "isDigit c \<Longrightarrow> \<not> isAlpha c"
  by (auto simp: isDigit_def isAlpha_def)

lemma parseInt_digits:
  assumes "ds \<noteq> []" "\<forall>c \<in> set ds. isDigit c"
  shows "parseInt ds = Some (int (digitsVal ds))"
proof -
  from assms obtain c cs where ds: "ds = c # cs" and c: "isDigit c"
    by (cases ds) auto
  have 1: "dropWhile isSpace ds = ds"
    using ds c by (simp add: isDigit_not_space)
  have 2: "takeWhile isDigit ds = ds"
    using assms by (simp add: takeWhile_eq_all_conv)
  have 3: "hd ds \<noteq> CHR ''-''" "hd ds \<noteq> CHR ''+''"
    using ds isDigit_not_sign [OF c] by simp_all
  show ?thesis
    unfolding parseInt_def Let_def 1
    using assms(1) by (simp add: 2 3)
qed

lemma toString_nat: "toString (int n) = natToString n"
  by (simp add: toString_def)

subsection \<open>The loop of the range expansion\<close>

lemma rangeLoop_eq:
  "rangeLoop prefix w i endNum results =
     results @ map (\<lambda>j. prefix @ padStart w CHR ''0'' (toString j)) [i..endNum]"
proof (induction prefix w i endNum results rule: rangeLoop.induct)
  case (1 prefix w i endNum results)
  show ?case
  proof (cases "i \<le> endNum")
    case True
    then have "[i..endNum] = i # [i + 1..endNum]"
      by (simp add: upto_rec1)
    with True 1 show ?thesis
      by (simp add: rangeLoop.simps [of prefix w i endNum results])
  next
    case False
    then show ?thesis
      by (simp add: rangeLoop.simps [of prefix w i endNum results])
  qed
qed

lemma upto_nat: "[int a..int b] = map int [a..<Suc b]"
proof (induction b)
  case 0
  show ?case by (cases a) (simp_all add: upto_rec1 [of 0 0] upto.simps)
next
  case (Suc b)
  show ?case
  proof (cases "a \<le> Suc b")
    case True
    then have "[int a..int (Suc b)] = [int a..int b] @ [int (Suc b)]"
      using upto_rec2 [of "int a" "int (Suc b)"] by simp
    with Suc True show ?thesis by simp
  next
    case False
    then show ?thesis by simp
  qed
qed

lemma rangeLoop_nat:
  "rangeLoop prefix w (int a) (int b) [] =
     map (\<lambda>j. prefix @ padStart w CHR ''0'' (natToString j)) [a..<Suc b]"
  by (simp add: rangeLoop_eq upto_nat comp_def toString_nat del: upt_Suc)

section \<open>Range expansion\<close>

lemma rangeMatch_None_rangeShaped: "rangeMatch input = None \<longleftrightarrow> \<not> rangeShaped input"
proof
  assume none: "rangeMatch input = None"
  show "\<not> rangeShaped input"
  proof
    assume "rangeShaped input"
    then obtain g1 g2 w1 w2 g3 g4 where
      "input = g1 @ g2 @ w1 @ CHR ''~'' # w2 @ g3 @ g4"
      "g1 \<noteq> []" "\<forall>c \<in> set g1. isDot c" "g2 \<noteq> []" "\<forall>c \<in> set g2. isDigit c"
      "\<forall>c \<in> set w1. isSpace c" "\<forall>c \<in> set w2. isSpace c"
      "\<forall>c \<in> set g3. isDot c" "g4 \<noteq> []" "\<forall>c \<in> set g4. isDigit c"
      unfolding rangeShaped_def list_all_iff by blast
    then have "(g1, g2, if g3 = [] then None else Some g3, g4) \<in> set (rangeMatches input)"
      by (rule rangeMatches_complete)
    with none show False
      by (simp add: rangeMatch_def firstMatch_None)
  qed
next
  assume no: "\<not> rangeShaped input"
  show "rangeMatch input = None"
  proof (rule ccontr)
    assume "rangeMatch input \<noteq> None"
    then obtain g1 g2 g3 g4 where "rangeMatch input = Some (g1, g2, g3, g4)"
      by (cases "rangeMatch input") auto
    then have "(g1, g2, g3, g4) \<in> set (rangeMatches input)"
      by (simp add: rangeMatch_def firstMatch_Some)
    from rangeMatches_sound [OF this] have "rangeShaped input"
      unfolding rangeShaped_def list_all_iff by blast
    with no show False ..
  qed
qed

lemma rangeMatch_digits:
  assumes "rangeMatch input = Some (g1, g2, g3, g4)"
  shows "parseInt g2 = Some (int (digitsVal g2)) \<and> parseInt g4 = Some (int (digitsVal g4))"
proof -
  from assms have "(g1, g2, g3, g4) \<in> set (rangeMatches input)"
    by (simp add: rangeMatch_def firstMatch_Some)
  from rangeMatches_sound [OF this] show ?thesis
    by (auto simp: parseInt_digits)
qed

lemma parseSerialRange_nomatch:
  "rangeMatch input = None \<Longrightarrow> parseSerialRange input = Inr [trim input]"
  by (simp add: parseSerialRange_def)

lemma parseSerialRange_match:
  assumes "rangeMatch input = Some (g1, g2, g3, g4)"
  shows "parseSerialRange input =
     (if digitsVal g2 > digitsVal g4 then Inr [trim input]
      else if digitsVal g4 - digitsVal g2 \<ge> 100 then Inl RangeTooLarge
      else Inr (map (\<lambda>j. g1 @ padStart (length g2) CHR ''0'' (natToString j))
                  [digitsVal g2..<Suc (digitsVal g4)]))"
proof -
  have le: "digitsVal g2 \<le> digitsVal g4 \<Longrightarrow>
      (100 \<le> int (digitsVal g4) - int (digitsVal g2)) = (100 \<le> digitsVal g4 - digitsVal g2)"
    by linarith
  show ?thesis
    using rangeMatch_digits [OF assms] le
    by (simp add: parseSerialRange_def assms rangeLoop_nat del: upt_Suc)
qed

text \<open>
  Claim C2, amended. Every list that the range expansion returns has at most 100
  elements, and an input whose captured start and end numbers span more than 100 serials
  (end minus start at least 100) raises the error.
\<close>

theorem C2_range_size_limit:
  "(\<forall>xs. parseSerialRange input = Inr xs \<longrightarrow> length xs \<le> 100) \<and>
   (\<forall>g1 g2 g3 g4. rangeMatch input = Some (g1, g2, g3, g4) \<and> digitsVal g2 \<le> digitsVal g4 \<and>
        100 < digitsVal g4 - digitsVal g2 + 1 \<longrightarrow> parseSerialRange input = Inl RangeTooLarge)"
proof (cases "rangeMatch input")
  case None
  then show ?thesis by (auto simp: parseSerialRange_nomatch)
next
  case (Some m)
  obtain g1 g2 g3 g4 where m: "m = (g1, g2, g3, g4)"
    by (cases m) auto
  show ?thesis
    using parseSerialRange_match [of input g1 g2 g3 g4] Some m
    by (auto split: if_splits)
qed

text \<open>
  The claim as stated fails: a range of exactly 100 serials is expanded, not rejected.
\<close>

theorem C2_hundred_serials_counterexample:
  "map_sum id length (parseSerialRange ''CT0001~0100'') = Inr 100"
  by code_simp

text \<open>A range of 101 serials is rejected; a range of three is returned.\<close>

theorem C2_range_size_limit_witness:
  "rangeMatch ''CT0001~0101'' = Some (''CT'', ''0001'', Some ''0'', ''101'') \<and>
   digitsVal ''0001'' = 1 \<and> digitsVal ''101'' = 101 \<and>
   parseSerialRange ''CT0001~0101'' = Inl RangeTooLarge \<and>
   parseSerialRange ''CT0001~0003'' = Inr [''CT0001'', ''CT0002'', ''CT0003''] \<and>
   length [''CT0001'', ''CT0002'', ''CT0003''] \<le> (100::nat)"
proof -
  have m: "rangeMatch ''CT0001~0101'' = Some (''CT'', ''0001'', Some ''0'', ''101'')"
    by code_simp
  have v: "digitsVal ''0001'' = 1" "digitsVal ''101'' = 101"
    by code_simp+
  have r: "parseSerialRange ''CT0001~0003'' = Inr [''CT0001'', ''CT0002'', ''CT0003'']"
    by code_simp
  show ?thesis
    using C2_range_size_limit [of "''CT0001~0101''"] C2_range_size_limit [of "''CT0001~0003''"] m v r
    by simp
qed

text \<open>
  Claim C6, amended. An input that is not of the form prefix, digits, \<open>~\<close>, optional
  second prefix, digits (white space allowed around \<open>~\<close>) comes back as the single
  literal, with the white space at its ends trimmed. For an input that matches, with
  \<open>g1\<close>, \<open>g2\<close> and \<open>g4\<close> the prefix, the start digits and the end digits the
  pattern captures: when the start number exceeds the end number the trimmed input comes
  back as the single literal; when it does not and the span is within the limit, the result
  is the prefix followed by each number from start to end inclusive, padded with zeros to
  the width of the start digits. The input \<open>CT0001~0010\<close> gives \<open>CT0001\<close> to
  \<open>CT0010\<close>.
\<close>

theorem C6_range_expansion:
  "(\<not> rangeShaped input \<longrightarrow> parseSerialRange input = Inr [trim input]) \<and>
   (\<forall>g1 g2 g3 g4. rangeMatch input = Some (g1, g2, g3, g4) \<and> digitsVal g2 > digitsVal g4 \<longrightarrow>
        parseSerialRange input = Inr [trim input]) \<and>
   (\<forall>g1 g2 g3 g4. rangeMatch input = Some (g1, g2, g3, g4) \<and> digitsVal g2 \<le> digitsVal g4 \<and>
        digitsVal g4 - digitsVal g2 < 100 \<longrightarrow>
        parseSerialRange input =
          Inr (map (\<lambda>j. g1 @ padStart (length g2) CHR ''0'' (natToString j))
                 [digitsVal g2..<Suc (digitsVal g4)])) \<and>
   parseSerialRange ''CT0001~0010'' =
     Inr [''CT0001'', ''CT0002'', ''CT0003'', ''CT0004'', ''CT0005'',
          ''CT0006'', ''CT0007'', ''CT0008'', ''CT0009'', ''CT0010'']"
proof -
  have a: "\<not> rangeShaped input \<longrightarrow> parseSerialRange input = Inr [trim input]"
    using rangeMatch_None_rangeShaped [of input] by (simp add: parseSerialRange_nomatch)
  have b: "\<forall>g1 g2 g3 g4. rangeMatch input = Some (g1, g2, g3, g4) \<and> digitsVal g2 > digitsVal g4 \<longrightarrow>
        parseSerialRange input = Inr [trim input]"
    by (simp add: parseSerialRange_match)
  have c: "\<forall>g1 g2 g3 g4. rangeMatch input = Some (g1, g2, g3, g4) \<and> digitsVal g2 \<le> digitsVal g4 \<and>
        digitsVal g4 - digitsVal g2 < 100 \<longrightarrow>
        parseSerialRange input =
          Inr (map (\<lambda>j. g1 @ padStart (length g2) CHR ''0'' (natToString j))
                 [digitsVal g2..<Suc (digitsVal g4)])"
    by (simp add: parseSerialRange_match del: upt_Suc)
  have d: "parseSerialRange ''CT0001~0010'' =
     Inr [''CT0001'', ''CT0002'', ''CT0003'', ''CT0004'', ''CT0005'',
          ''CT0006'', ''CT0007'', ''CT0008'', ''CT0009'', ''CT0010'']"
    by code_simp
  from a b c d show ?thesis by blast
qed

text \<open>
  The claim as stated fails: an input that does not match and ends in a blank does not
  come back whole.
\<close>

theorem C6_trimmed_literal_counterexample:
  "\<not> rangeShaped ''CT~ '' \<and> parseSerialRange ''CT~ '' = Inr [''CT~''] \<and>
   parseSerialRange ''CT~ '' \<noteq> Inr [''CT~ '']"
proof -
  have "rangeMatch ''CT~ '' = None"
    by code_simp
  then have "\<not> rangeShaped ''CT~ ''"
    by (simp add: rangeMatch_None_rangeShaped)
  moreover have "parseSerialRange ''CT~ '' = Inr [''CT~'']"
    by code_simp
  ultimately show ?thesis by simp
qed

text \<open>A literal, a descending range and an ascending range.\<close>

theorem C6_range_expansion_witness:
  "parseSerialRange ''SN00008'' = Inr [''SN00008''] \<and>
   parseSerialRange ''CT0005~0001'' = Inr [''CT0005~0001''] \<and>
   parseSerialRange ''CT0003~0005'' = Inr [''CT0003'', ''CT0004'', ''CT0005'']"
proof -
  have n: "\<not> rangeShaped ''SN00008''"
    unfolding rangeMatch_None_rangeShaped [symmetric] by code_simp
  have t: "trim ''SN00008'' = ''SN00008''" "trim ''CT0005~0001'' = ''CT0005~0001''"
    by code_simp+
  have m1: "rangeMatch ''CT0005~0001'' = Some (''CT'', ''0005'', Some ''0'', ''001'') \<and>
      digitsVal ''0005'' > digitsVal ''001''"
    by code_simp
  have m2: "rangeMatch ''CT0003~0005'' = Some (''CT'', ''0003'', Some ''0'', ''005'') \<and>
      digitsVal ''0003'' \<le> digitsVal ''005'' \<and> digitsVal ''005'' - digitsVal ''0003'' < 100"
    by code_simp
  have e: "map (\<lambda>j. ''CT'' @ padStart (length ''0003'') CHR ''0'' (natToString j))
      [digitsVal ''0003''..<Suc (digitsVal ''005'')] = [''CT0003'', ''CT0004'', ''CT0005'']"
    by code_simp
  have r1: "parseSerialRange ''SN00008'' = Inr [trim ''SN00008'']"
    using C6_range_expansion [of "''SN00008''"] n by blast
  have r2: "parseSerialRange ''CT0005~0001'' = Inr [trim ''CT0005~0001'']"
    using C6_range_expansion [of "''CT0005~0001''"] m1 by blast
  have r3: "parseSerialRange ''CT0003~0005'' =
      Inr (map (\<lambda>j. ''CT'' @ padStart (length ''0003'') CHR ''0'' (natToString j))
             [digitsVal ''0003''..<Suc (digitsVal ''005'')])"
    using C6_range_expansion [of "''CT0003~0005''"] m2 by blast
  show ?thesis
    using r1 r2 r3 by (simp only: t e)
qed

section \<open>Serial suggestion\<close>

lemma set_serialMatches:
  "(p, d) \<in> set (serialMatches s) \<longleftrightarrow>
     s = p @ d \<and> p \<noteq> [] \<and> (\<forall>c \<in> set p. isAlpha c) \<and> d \<noteq> [] \<and> (\<forall>c \<in> set d. isDigit c)"
  unfolding serialMatches_def
  by (auto simp: Bex_pair set_greedyPlus)

lemma takeWhile_split:
  assumes "\<forall>c \<in> set p. P c" "d \<noteq> []" "\<not> P (hd d)"
  shows "takeWhile P (p @ d) = p" "dropWhile P (p @ d) = d"
proof -
  from assms obtain c cs where d: "d = c # cs" and c: "\<not> P c"
    by (cases d) auto
  show "takeWhile P (p @ d) = p"
    using assms(1) d c by (simp add: takeWhile_append2)
  show "dropWhile P (p @ d) = d"
    using assms(1) d c by (simp add: dropWhile_append2)
qed

lemma serialMatches_lettersDigits:
  assumes "(p, d) \<in> set (serialMatches s)"
  shows "lettersDigits s = Some (p, d)"
proof -
  from assms have s: "s = p @ d" and p: "p \<noteq> []" "\<forall>c \<in> set p. isAlpha c"
    and d: "d \<noteq> []" "\<forall>c \<in> set d. isDigit c"
    by (simp_all add: set_serialMatches)
  from d have na: "\<not> isAlpha (hd d)"
    by (cases d) (simp_all add: isDigit_not_alpha)
  have "takeWhile isAlpha s = p" "dropWhile isAlpha s = d"
    unfolding s using takeWhile_split [OF p(2) d(1) na] by simp_all
  with p d show ?thesis
    by (simp add: lettersDigits_def list_all_iff)
qed

lemma lettersDigits_serialMatches:
  assumes "lettersDigits s = Some (p, d)"
  shows "(p, d) \<in> set (serialMatches s)"
proof -
  from assms have "p = takeWhile isAlpha s" "d = dropWhile isAlpha s" "p \<noteq> []" "d \<noteq> []"
    "\<forall>c \<in> set d. isDigit c"
    by (auto simp: lettersDigits_def Let_def list_all_iff split: if_splits)
  moreover have "\<forall>c \<in> set (takeWhile isAlpha s). isAlpha c"
    by (auto dest: set_takeWhileD)
  ultimately show ?thesis
    by (simp add: set_serialMatches)
qed

lemma serialMatch_lettersDigits: "serialMatch s = lettersDigits s"
proof (cases "serialMatches s")
  case Nil
  then have "lettersDigits s = None"
    using lettersDigits_serialMatches [of s] by (cases "lettersDigits s") auto
  with Nil show ?thesis
    by (simp add: serialMatch_def firstMatch_def)
next
  case (Cons m ms)
  obtain p d where m: "m = (p, d)" by (cases m) auto
  with Cons have "(p, d) \<in> set (serialMatches s)" by simp
  then have "lettersDigits s = Some (p, d)"
    by (rule serialMatches_lettersDigits)
  with Cons m show ?thesis
    by (simp add: serialMatch_def firstMatch_def)
qed

lemma lettersDigits_digits:
  "lettersDigits s = Some (p, d) \<Longrightarrow> parseInt d = Some (int (digitsVal d))"
  by (rule parseInt_digits)
     (auto simp: lettersDigits_def Let_def list_all_iff split: if_splits)

lemma suggestStep_eq:
  "suggestStep (m, p) s =
     (case lettersDigits (toUpperCase s) of
        None \<Rightarrow> (m, p)
      | Some g \<Rightarrow> (max m (int (digitsVal (snd g))), fst g))"
proof (cases "lettersDigits (toUpperCase s)")
  case None
  then show ?thesis
    by (simp add: suggestStep_def serialMatch_lettersDigits)
next
  case (Some g)
  obtain g1 g2 where g: "g = (g1, g2)" by (cases g) auto
  with Some have "parseInt g2 = Some (int (digitsVal g2))"
    by (simp add: lettersDigits_digits)
  with Some g show ?thesis
    by (simp add: suggestStep_def serialMatch_lettersDigits max_def)
qed

lemma foldl_suggestStep:
  "foldl suggestStep (m, p) used =
     (fold max (map (\<lambda>g. int (digitsVal (snd g))) (matchedSerials used)) m,
      if matchedSerials used = [] then p else fst (last (matchedSerials used)))"
proof (induction used arbitrary: m p)
  case Nil
  show ?case by (simp add: matchedSerials_def)
next
  case (Cons s used)
  show ?case
  proof (cases "lettersDigits (toUpperCase s)")
    case None
    then show ?thesis
      using Cons [of m p] by (simp add: suggestStep_eq matchedSerials_def)
  next
    case (Some g)
    then show ?thesis
      using Cons [of "max m (int (digitsVal (snd g)))" "fst g"]
      by (simp add: suggestStep_eq matchedSerials_def max.commute)
  qed
qed

lemma maxSuffix_fold:
  "maxSuffix used = fold max (map (\<lambda>g. int (digitsVal (snd g))) (matchedSerials used)) 0"
  by (simp only: maxSuffix_def Max.set_eq_fold)

lemma suggestNextSerial_nonempty:
  assumes "used \<noteq> []"
  shows "suggestNextSerial used = lastMatchedPrefix used @ paddedNumber (maxSuffix used + 1)"
  using assms
  by (simp add: suggestNextSerial_def Let_def foldl_suggestStep maxSuffix_fold
      lastMatchedPrefix_def paddedNumber_def)

text \<open>
  Claim C5. With no used serial the suggestion is the seed \<open>SN00001\<close>. Otherwise it is
  the letters of the last used serial of the form letters-then-digits (\<open>SN\<close> when there
  is none), followed by one more than the largest numeric suffix of such serials (\<open>0\<close>
  when there is none), padded with zeros to five digits, or to its own width when that is
  larger. After \<open>SN00007\<close> the suggestion is \<open>SN00008\<close>.
\<close>

theorem C5_suggest_next_serial:
  "suggestNextSerial [] = ''SN00001'' \<and>
   (used \<noteq> [] \<longrightarrow>
      suggestNextSerial used = lastMatchedPrefix used @ paddedNumber (maxSuffix used + 1)) \<and>
   length (paddedNumber n) = max 5 (length (toString n)) \<and>
   suggestNextSerial [''SN00007''] = ''SN00008''"
proof -
  have "suggestNextSerial [] = ''SN00001''"
    by (simp add: suggestNextSerial_def)
  moreover have "length (paddedNumber n) = max 5 (length (toString n))"
    by (simp add: paddedNumber_def length_padStart)
  moreover have "suggestNextSerial [''SN00007''] = ''SN00008''"
    by code_simp
  ultimately show ?thesis
    by (simp add: suggestNextSerial_nonempty)
qed

text \<open>The last match decides the prefix, the largest suffix the number.\<close>

theorem C5_suggest_next_serial_witness:
  "suggestNextSerial [''SN00007'', ''ab12'', ''0042''] = ''AB'' @ ''00013'' \<and>
   lastMatchedPrefix [''SN00007'', ''ab12'', ''0042''] = ''AB'' \<and>
   maxSuffix [''SN00007'', ''ab12'', ''0042''] = 12"
proof -
  have p: "lastMatchedPrefix [''SN00007'', ''ab12'', ''0042''] = ''AB''"
    by code_simp
  have m: "maxSuffix [''SN00007'', ''ab12'', ''0042''] = 12"
    by code_simp
  have n: "paddedNumber (12 + 1) = ''00013''"
    by code_simp
  show ?thesis
    using C5_suggest_next_serial [of "[''SN00007'', ''ab12'', ''0042'']"] p m n by simp
qed

section \<open>Frame properties of the store handlers\<close>

lemma frame_all:
  "\<forall>it\<in>set prev. \<not> P it \<Longrightarrow> map (\<lambda>it. if P it then f it else it) prev = prev"
  by (induction prev) simp_all

text \<open>
  Claim C10. Adding, updating and deleting a transaction and updating an item, each for a
  given item identifier, keep the number of items and leave every item whose identifier
  differs from the given one as it was; when no item of the store has the given
  identifier, the store after the operation is the store before it.
\<close>

theorem C10_frame:
  "(\<forall>i < length prev. i_id (prev ! i) \<noteq> itemId \<longrightarrow>
      handleAddTransaction newId itemId tr prev ! i = prev ! i \<and>
      handleUpdateTransaction itemId transactionId updT prev ! i = prev ! i \<and>
      handleDeleteTransaction itemId transactionId prev ! i = prev ! i \<and>
      handleUpdateItem itemId updI prev ! i = prev ! i) \<and>
   length (handleAddTransaction newId itemId tr prev) = length prev \<and>
   length (handleUpdateTransaction itemId transactionId updT prev) = length prev \<and>
   length (handleDeleteTransaction itemId transactionId prev) = length prev \<and>
   length (handleUpdateItem itemId updI prev) = length prev \<and>
   ((\<forall>it \<in> set prev. i_id it \<noteq> itemId) \<longrightarrow>
      handleAddTransaction newId itemId tr prev = prev \<and>
      handleUpdateTransaction itemId transactionId updT prev = prev \<and>
      handleDeleteTransaction itemId transactionId prev = prev \<and>
      handleUpdateItem itemId updI prev = prev)"
  unfolding handleAddTransaction_def handleUpdateTransaction_def handleDeleteTransaction_def
    handleUpdateItem_def Let_def
  by (simp add: frame_all)

text \<open>The frame property on the example store, for its second item and for an unknown identifier.\<close>

theorem C10_frame_witness:
  "handleAddTransaction ''t-1700000000002-3'' ''item-1'' (exTrans [] Release 1 None) exStore ! 1 = exStore ! 1 \<and>
   handleUpdateTransaction ''item-1'' ''t-1700000000000-7''
     \<lparr> pt_id = None, pt_type = None, pt_quantity = Some 9, pt_date = None, pt_remarks = None,
       pt_modelName = None, pt_serialNumber = None, pt_customerName = None, pt_address = None,
       pt_phoneNumber = None, pt_userId = None \<rparr> exStore ! 1 = exStore ! 1 \<and>
   handleDeleteTransaction ''item-1'' ''t-1700000000000-7'' exStore ! 1 = exStore ! 1 \<and>
   handleDeleteTransaction ''item-9'' ''t-1700000000000-7'' exStore = exStore \<and>
   i_id (exStore ! 1) \<noteq> ''item-1'' \<and> (1::nat) < length exStore"
proof -
  have len: "(1::nat) < length exStore"
    by (simp add: exStore_def)
  have other: "i_id (exStore ! 1) \<noteq> ''item-1''"
    by (simp add: exStore_def exProduct_def exItem_def)
  have none: "\<forall>it \<in> set exStore. i_id it \<noteq> ''item-9''"
    by (simp add: exStore_def exProduct_def exPart_def exItem_def)
  show ?thesis
    using len other none
      C10_frame [of exStore "''item-1''" "''t-1700000000002-3''" "exTrans [] Release 1 None"
        "''t-1700000000000-7''"
        "\<lparr> pt_id = None, pt_type = None, pt_quantity = Some 9, pt_date = None, pt_remarks = None,
           pt_modelName = None, pt_serialNumber = None, pt_customerName = None, pt_address = None,
           pt_phoneNumber = None, pt_userId = None \<rparr>"]
      C10_frame [of exStore "''item-9''" _ _ "''t-1700000000000-7''"]
    by blast
qed

section \<open>Adding and then deleting a transaction\<close>

lemma filter_fresh_id:
  "newId \<notin> t_id ` set ts \<Longrightarrow> filter (\<lambda>t. t_id t \<noteq> newId) ts = ts"
  by (induction ts) auto

text \<open>
  Claim C8, amended. When the identifier generated for the new transaction is not the
  identifier of a transaction the item already has, adding the transaction and then
  deleting it by that identifier gives back the store, and with it the stock of every item.
\<close>

theorem C8_add_then_delete_restores:
  assumes "\<forall>it \<in> set prev. i_id it = itemId \<longrightarrow> newId \<notin> t_id ` set (transactions it)"
  shows "handleDeleteTransaction itemId newId (handleAddTransaction newId itemId tr prev) = prev \<and>
         map calculateStock (handleDeleteTransaction itemId newId (handleAddTransaction newId itemId tr prev))
           = map calculateStock prev"
proof -
  have "handleDeleteTransaction itemId newId (handleAddTransaction newId itemId tr prev) = prev"
    unfolding handleAddTransaction_def handleDeleteTransaction_def Let_def map_map comp_def
  proof (rule map_idI, goal_cases)
    case (1 x)
    with assms have "i_id x = itemId \<longrightarrow> newId \<notin> t_id ` set (transactions x)"
      by blast
    then show ?case
      by (cases "i_id x = itemId") (simp_all add: filter_fresh_id)
  qed
  then show ?thesis by simp
qed

text \<open>
  The claim as stated fails when \<^verbatim>\<open>generateId\<close> returns the identifier of a transaction
  the item already has: deleting by that identifier removes both, and the stock of the
  example part goes from \<open>5\<close> to \<open>0\<close>.
\<close>

theorem C8_id_collision_counterexample:
  "map calculateStock (handleDeleteTransaction ''item-1'' ''t-1700000000000-7''
     (handleAddTransaction ''t-1700000000000-7'' ''item-1'' (exTrans [] Release 1 None) exStore)) = [0, 2] \<and>
   map calculateStock exStore = [5, 2] \<and>
   map calculateStock (handleDeleteTransaction ''item-1'' ''t-1700000000000-7''
     (handleAddTransaction ''t-1700000000000-7'' ''item-1'' (exTrans [] Release 1 None) exStore))
     \<noteq> map calculateStock exStore"
  by (simp add: handleDeleteTransaction_def handleAddTransaction_def exStore_def exProduct_def
      exPart_def exItem_def exTrans_def calculateStock_def stockStep_def)

text \<open>A release is added to the example part under a fresh identifier and deleted again.\<close>

theorem C8_add_then_delete_witness:
  "handleDeleteTransaction ''item-1'' ''t-1700000000002-3''
     (handleAddTransaction ''t-1700000000002-3'' ''item-1'' (exTrans [] Release 1 None) exStore) = exStore \<and>
   map calculateStock (handleDeleteTransaction ''item-1'' ''t-1700000000002-3''
     (handleAddTransaction ''t-1700000000002-3'' ''item-1'' (exTrans [] Release 1 None) exStore)) = [5, 2]"
proof -
  have fresh: "\<forall>it \<in> set exStore. i_id it = ''item-1'' \<longrightarrow>
      ''t-1700000000002-3'' \<notin> t_id ` set (transactions it)"
    by (simp add: exStore_def exProduct_def exPart_def exItem_def exTrans_def)
  have stock: "map calculateStock exStore = [5, 2]"
    by (simp add: exStore_def exProduct_def exPart_def exItem_def exTrans_def calculateStock_def
        stockStep_def)
  show ?thesis
    using C8_add_then_delete_restores [OF fresh] stock by simp
qed

section \<open>Releases beyond the stock\<close>

text \<open>
  Claim C4. A submission of the transaction form for a release whose count (the quantity
  typed, or the number of serials of the range) exceeds the current stock of the item ends
  in an alert, and the store after it is the store before it; so are the item's
  transaction list and its stock.
\<close>

theorem C4_release_over_stock_rejected:
  assumes "f_transactionType form = Release"
    and "\<forall>target. targetSerialsOf it form = Inr target \<longrightarrow> countOf form target > currentStock it"
  shows "(\<exists>a. handleAddTransaction_modal e it used form prev = Inl a) \<and>
         storeAfter prev (handleAddTransaction_modal e it used form prev) = prev"
proof -
  have "\<exists>a. handleAddTransaction_modal e it used form prev = Inl a"
    using assms unfolding handleAddTransaction_modal_def Let_def
    by (cases "targetSerialsOf it form") auto
  then show ?thesis by (auto simp: storeAfter_def)
qed

text \<open>Six pieces are requested from the example part, which has five.\<close>

theorem C4_release_over_stock_witness:
  "f_transactionType (exForm Release ''6'' []) = Release \<and>
   targetSerialsOf exPart (exForm Release ''6'' []) = Inr ([[]], False) \<and>
   countOf (exForm Release ''6'' []) ([[]], False) = 6 \<and>
   currentStock exPart = 5 \<and>
   storeAfter exStore
     (handleAddTransaction_modal exEnv exPart (allUsedSerials exStore) (exForm Release ''6'' []) exStore)
     = exStore"
proof -
  have ty: "f_transactionType (exForm Release ''6'' []) = Release"
    by (simp add: exForm_def)
  have tgt: "targetSerialsOf exPart (exForm Release ''6'' []) = Inr ([[]], False)"
    by code_simp
  have cnt: "countOf (exForm Release ''6'' []) ([[]], False) = 6"
    by code_simp
  have stock: "currentStock exPart = 5"
    by code_simp
  have over: "\<forall>target. targetSerialsOf exPart (exForm Release ''6'' []) = Inr target \<longrightarrow>
      countOf (exForm Release ''6'' []) target > currentStock exPart"
    using tgt cnt stock by simp
  show ?thesis
    using C4_release_over_stock_rejected [OF ty over, of exEnv "allUsedSerials exStore" exStore]
      ty tgt cnt stock by simp
qed

section \<open>Range submissions\<close>

lemma addEach_eq:
  "addEach e itemId form ss k prev =
     map (\<lambda>x. if i_id x = itemId
               then x\<lparr>transactions := transactions x @
                      map (\<lambda>(j, s). (rangeTransaction e form j s)\<lparr>t_id := genId e j\<rparr>) (enumerate k ss)\<rparr>
               else x) prev"
proof (induction ss arbitrary: k prev)
  case Nil
  show ?case by (simp add: map_idI)
next
  case (Cons s ss)
  show ?case
    by (simp add: Cons.IH handleAddTransaction_def Let_def comp_def cong: if_cong)
qed

lemma parseSerialRange_distinct:
  assumes "parseSerialRange input = Inr serials"
  shows "distinct serials"
proof (cases "rangeMatch input")
  case None
  with assms show ?thesis by (auto simp: parseSerialRange_nomatch)
next
  case (Some m)
  obtain g1 g2 g3 g4 where m: "m = (g1, g2, g3, g4)" by (cases m) auto
  have inj: "inj_on (\<lambda>j. g1 @ padStart (length g2) CHR ''0'' (natToString j)) A" for A
    by (rule inj_onI) (simp add: padded_inj)
  from assms show ?thesis
    using parseSerialRange_match [of input g1 g2 g3 g4] Some m
    by (auto simp: distinct_map inj simp del: upt_Suc split: if_splits)
qed

lemma signedSum_append: "signedSum (xs @ ys) = signedSum xs + signedSum ys"
  by (simp add: signedSum_def)

lemma calculateStock_append:
  "calculateStock (x\<lparr>transactions := transactions x @ ts\<rparr>) = calculateStock x + signedSum ts"
  by (simp add: calculateStock_signedSum signedSum_append)

lemma signedSum_rangeTransactions:
  "signedSum (map (\<lambda>(j, s). (rangeTransaction e form j s)\<lparr>t_id := genId e j\<rparr>) (enumerate k ss))
     = stockChange form (length ss)"
proof (induction ss arbitrary: k)
  case Nil
  show ?case by (simp add: signedSum_def stockChange_def split: transactionType.splits)
next
  case (Cons s ss)
  have "signedQuantity ((rangeTransaction e form k s)\<lparr>t_id := genId e k\<rparr>) = stockChange form 1"
    by (simp add: signedQuantity_def rangeTransaction_def stockChange_def split: transactionType.splits)
  then show ?case
    using Cons [of "Suc k"]
    by (simp add: signedSum_def stockChange_def split: transactionType.splits)
qed

lemma map_enumerate_snd: "map (\<lambda>(k, s). f s) (enumerate n xs) = map f xs"
  by (induction xs arbitrary: n) simp_all

lemma rangeTransactions_fields:
  "map t_quantity (rangeTransactions e form serials) = replicate (length serials) 1"
  "map t_type (rangeTransactions e form serials) = replicate (length serials) (f_transactionType form)"
  "map t_serialNumber (rangeTransactions e form serials) = map Some serials"
  by (simp_all add: rangeTransactions_def rangeTransaction_def comp_def case_prod_unfold
      map_enumerate_snd [unfolded case_prod_unfold] map_replicate_const)

text \<open>
  Claim C9. When the transaction form of a product holds a range expression that expands
  to more than one serial and the submission passes every check, the store after it
  differs from the store before it in the item alone: as many transactions as the range has
  serials are appended to it, each of quantity \<open>1\<close> and of the form's type, the \<open>k\<close>-th
  with the \<open>k\<close>-th serial of the range; the serials are distinct, and the stock of the
  item grows (purchase) or shrinks (release) by their number.
\<close>

theorem C9_range_insertion:
  assumes "i_type it = Product" and "includes_elem (f_serialNumber form) CHR ''~''"
    and "parseSerialRange (toUpperCase (f_serialNumber form)) = Inr serials"
    and "length serials > 1"
    and "handleAddTransaction_modal e it used form prev = Inr after"
  shows "after = map (\<lambda>x. if i_id x = i_id it
                        then x\<lparr>transactions := transactions x @ rangeTransactions e form serials\<rparr>
                        else x) prev \<and>
         length (rangeTransactions e form serials) = length serials \<and>
         map t_quantity (rangeTransactions e form serials) = replicate (length serials) 1 \<and>
         map t_type (rangeTransactions e form serials)
           = replicate (length serials) (f_transactionType form) \<and>
         map t_serialNumber (rangeTransactions e form serials) = map Some serials \<and>
         distinct serials \<and>
         map calculateStock after =
           map (\<lambda>x. if i_id x = i_id it then calculateStock x + stockChange form (length serials)
                     else calculateStock x) prev"
proof -
  have target: "targetSerialsOf it form = Inr (serials, True)"
    using assms(1-3) by (simp add: targetSerialsOf_def)
  have run: "after = addEach e (i_id it) form serials 0 prev"
    using assms(5) unfolding handleAddTransaction_modal_def target Let_def
    by (simp split: if_splits)
  then have 1: "after = map (\<lambda>x. if i_id x = i_id it
                        then x\<lparr>transactions := transactions x @ rangeTransactions e form serials\<rparr>
                        else x) prev"
    by (simp add: addEach_eq rangeTransactions_def)
  have 2: "map calculateStock after =
           map (\<lambda>x. if i_id x = i_id it then calculateStock x + stockChange form (length serials)
                     else calculateStock x) prev"
    unfolding 1 map_map comp_def
    by (rule map_cong)
       (simp_all add: calculateStock_append rangeTransactions_def signedSum_rangeTransactions)
  have 3: "length (rangeTransactions e form serials) = length serials"
    by (simp add: rangeTransactions_def)
  show ?thesis
    using 1 2 3 rangeTransactions_fields [of e form serials]
      parseSerialRange_distinct [OF assms(3)]
    by simp
qed

text \<open>Three serials are purchased for the example product: its stock goes from two to five.\<close>

theorem C9_range_insertion_witness:
  "handleAddTransaction_modal exEnv exProduct (allUsedSerials exStore) exRangeForm exStore
     = Inr (addEach exEnv (i_id exProduct) exRangeForm [''CT0003'', ''CT0004'', ''CT0005''] 0 exStore) \<and>
   map calculateStock exStore = [5, 2] \<and>
   map calculateStock
     (addEach exEnv (i_id exProduct) exRangeForm [''CT0003'', ''CT0004'', ''CT0005''] 0 exStore) = [5, 5] \<and>
   map t_serialNumber (rangeTransactions exEnv exRangeForm [''CT0003'', ''CT0004'', ''CT0005''])
     = [Some ''CT0003'', Some ''CT0004'', Some ''CT0005''] \<and>
   map t_quantity (rangeTransactions exEnv exRangeForm [''CT0003'', ''CT0004'', ''CT0005'']) = [1, 1, 1]"
proof -
  have h1: "i_type exProduct = Product"
    by code_simp
  have h2: "includes_elem (f_serialNumber exRangeForm) CHR ''~''"
    by code_simp
  have h3: "parseSerialRange (toUpperCase (f_serialNumber exRangeForm))
      = Inr [''CT0003'', ''CT0004'', ''CT0005'']"
    by code_simp
  have h4: "length [''CT0003'', ''CT0004'', ''CT0005''] > 1"
    by simp
  have h5: "handleAddTransaction_modal exEnv exProduct (allUsedSerials exStore) exRangeForm exStore
     = Inr (addEach exEnv (i_id exProduct) exRangeForm [''CT0003'', ''CT0004'', ''CT0005''] 0 exStore)"
    by code_simp
  have before: "map calculateStock exStore = [5, 2]"
    by code_simp
  have change: "map (\<lambda>x. if i_id x = i_id exProduct
       then calculateStock x + stockChange exRangeForm (length [''CT0003'', ''CT0004'', ''CT0005''])
       else calculateStock x) exStore = [5, 5]"
    by code_simp
  note c9 = C9_range_insertion [OF h1 h2 h3 h4 h5]
  from c9 have stock: "map calculateStock
      (addEach exEnv (i_id exProduct) exRangeForm [''CT0003'', ''CT0004'', ''CT0005''] 0 exStore) =
      map (\<lambda>x. if i_id x = i_id exProduct
       then calculateStock x + stockChange exRangeForm (length [''CT0003'', ''CT0004'', ''CT0005''])
       else calculateStock x) exStore"
    by blast
  from c9 have sn: "map t_serialNumber (rangeTransactions exEnv exRangeForm [''CT0003'', ''CT0004'', ''CT0005''])
      = map Some [''CT0003'', ''CT0004'', ''CT0005'']"
    by blast
  from c9 have q: "map t_quantity (rangeTransactions exEnv exRangeForm [''CT0003'', ''CT0004'', ''CT0005''])
      = replicate (length [''CT0003'', ''CT0004'', ''CT0005'']) 1"
    by blast
  show ?thesis
    using h5 before trans [OF stock change] sn q
    by (simp del: addEach.simps add: numeral_3_eq_3)
qed

section \<open>Duplicate serials and codes\<close>

text \<open>
  What the duplicate check of the transaction form does reject: a submission one of whose
  target serials (the trimmed serial, or a serial of the expanded range) is not empty and
  is among the used serials.
\<close>

lemma duplicate_target_rejected:
  assumes "targetSerialsOf it form = Inr target"
    and "s \<in> set (fst target)" "s \<noteq> []" "s \<in> set used"
  shows "\<exists>ds. handleAddTransaction_modal e it used form prev = Inl (DuplicateSerials ds)"
proof -
  from assms(2-4) have "filter (\<lambda>s. s \<noteq> [] \<and> includes_elem used s) (fst target) \<noteq> []"
    by (auto simp: filter_empty_conv includes_elem_def)
  with assms(1) show ?thesis
    by (simp add: handleAddTransaction_modal_def Let_def)
qed

text \<open>
  Claim C3 at a failing input. The serial \<open>SN1\<close> followed by a blank is submitted twice
  for a product without transactions. The duplicate check looks for the trimmed serial
  \<open>SN1\<close> among the used serials, the transaction stores the serial with its blank: after
  the first submission the used serials hold the serial with its blank, the second
  submission is accepted all the same, and the item has two transactions with one serial.
\<close>

theorem C3_spaced_serial_twice:
  "map (map t_serialNumber \<circ> transactions)
     (submitTransactionForm exEnv ''item-3'' exSpacedForm [exNewProduct])
     = [[Some ''SN1 '']] \<and>
   allUsedSerials (submitTransactionForm exEnv ''item-3'' exSpacedForm [exNewProduct]) = [''SN1 ''] \<and>
   map (map t_serialNumber \<circ> transactions)
     (submitTransactionForm exEnv2 ''item-3'' exSpacedForm
        (submitTransactionForm exEnv ''item-3'' exSpacedForm [exNewProduct]))
     = [[Some ''SN1 '', Some ''SN1 '']]"
  by code_simp

text \<open>
  What the add-item form does: a code with no blank at its ends that equals an existing
  code up to case is rejected; a submission with a name and a code whose trimmed code
  differs from every existing code up to case puts the new item in front of the store,
  with no transaction when the initial quantity is not a positive number and with one
  purchase of that quantity when it is.
\<close>

lemma handleSubmit_duplicate_rejected:
  assumes "trim (a_code formData) = a_code formData"
    and "c \<in> set existingCodes" "toUpperCase c = toUpperCase (a_code formData)"
  shows "\<exists>a. handleSubmit newItemId newTransId now formData itemType existingCodes prev = Inl a"
  using assms
  by (auto simp: handleSubmit_def isCodeDuplicate_def list_ex_iff)

lemma handleSubmit_unique_accepted:
  assumes "a_code formData \<noteq> []" "a_name formData \<noteq> []"
    and "\<forall>c \<in> set existingCodes. toUpperCase c \<noteq> toUpperCase (trim (a_code formData))"
  shows "\<exists>newItem. handleSubmit newItemId newTransId now formData itemType existingCodes prev
           = Inr (newItem # prev) \<and>
         i_id newItem = newItemId \<and> i_code newItem = a_code formData \<and>
         (case parseInt (a_initialQuantity formData) of
            None \<Rightarrow> transactions newItem = []
          | Some q \<Rightarrow>
              if q > 0
              then map (\<lambda>t. (t_type t, t_quantity t)) (transactions newItem) = [(Purchase, q)]
              else transactions newItem = [])"
  using assms
  by (auto simp: handleSubmit_def isCodeDuplicate_def list_ex_iff handleAddItem_def Let_def
      split: option.splits)

text \<open>
  Claim C7 at a failing input. An item with the code \<open>A1\<close> followed by a blank is added
  twice. The duplicate check compares the trimmed code with the stored codes, the item
  stores the code with its blank: the second submission is accepted and the store has two
  items with one code.
\<close>

theorem C7_spaced_code_twice:
  "map i_code (submitAddItemForm ''item-1700000000000-1'' ''t-1700000000000-2'' ''2024-01-01T00:00:00.000Z''
       (exAddForm ''A1 '' ''WIDGET'' ''0'') Part []) = [''A1 ''] \<and>
   map i_code
     (submitAddItemForm ''item-1700000000900-3'' ''t-1700000000900-4'' ''2024-01-02T00:00:00.000Z''
        (exAddForm ''A1 '' ''GADGET'' ''0'') Part
        (submitAddItemForm ''item-1700000000000-1'' ''t-1700000000000-2'' ''2024-01-01T00:00:00.000Z''
           (exAddForm ''A1 '' ''WIDGET'' ''0'') Part []))
     = [''A1 '', ''A1 '']"
  by code_simp

end
